theory Spec2Isabelle
  imports Main "HOL-Library.Word"
begin

section \<open>Python values\<close>

text \<open>
  A Python \<^verbatim>\<open>str\<close> is a sequence of Unicode code points, and \<^verbatim>\<open>len\<close>, \<^verbatim>\<open>strip\<close> and
  \<^verbatim>\<open>decode\<close> work on code points, so a string is a list of code points. The string
  literals of \<^verbatim>\<open>app.py\<close> are ASCII; \<open>lit\<close> turns an Isabelle literal into such a string.
  The bytes of an uploaded file are 8-bit words.
\<close>

type_synonym codepoint = nat
type_synonym pystr = "codepoint list"
type_synonym byte = "8 word"

definition lit :: "string \<Rightarrow> pystr" where
  "lit s = map of_char s"

text \<open>
  The values that reach \<^verbatim>\<open>int(...)\<close> in \<^verbatim>\<open>app.py\<close>: a form field (a \<^verbatim>\<open>str\<close>), the default
  \<^verbatim>\<open>0\<close> of \<^verbatim>\<open>data.get(param, 0)\<close>, and the \<^verbatim>\<open>None\<close> of \<^verbatim>\<open>request.form.get(name)\<close> for a
  field that is absent.
\<close>

datatype pyval = PyStr pystr | PyInt int | PyNone

datatype exn = ValueError | TypeError | RequestEntityTooLarge

subsection \<open>\<^verbatim>\<open>str.isspace\<close>, \<^verbatim>\<open>str.strip\<close>\<close>

text \<open>
  The code points for which \<^verbatim>\<open>str.isspace\<close> holds (CPython's \<^verbatim>\<open>Py_UNICODE_ISSPACE\<close>): the ones
  that \<^verbatim>\<open>strip()\<close> removes at both ends.
\<close>

definition isspace :: "codepoint \<Rightarrow> bool" where
  "isspace c \<longleftrightarrow>
     (0x09 \<le> c \<and> c \<le> 0x0D) \<or> (0x1C \<le> c \<and> c \<le> 0x20) \<or> c = 0x85 \<or> c = 0xA0 \<or>
     c = 0x1680 \<or> (0x2000 \<le> c \<and> c \<le> 0x200A) \<or> c = 0x2028 \<or> c = 0x2029 \<or>
     c = 0x202F \<or> c = 0x205F \<or> c = 0x3000"


subsection \<open>\<^verbatim>\<open>str(n)\<close> of an integer, as an f-string formats it\<close>

fun str_nat :: "nat \<Rightarrow> pystr" where
  "str_nat n = (if n < 10 then [48 + n] else str_nat (n div 10) @ [48 + n mod 10])"

declare str_nat.simps [simp del]

definition str_int :: "int \<Rightarrow> pystr" where
  "str_int i = (if i < 0 then 45 # str_nat (nat (- i)) else str_nat (nat i))"

subsection \<open>\<^verbatim>\<open>int(x)\<close>\<close>

text \<open>
  \<^verbatim>\<open>int(s)\<close> of a string, base 10, as CPython 3.11 converts it. The string is first
  brought to ASCII: a code point below 127 stays, a Unicode space from 127 on becomes a
  blank and a decimal digit of any script becomes its ASCII digit; any other code point
  makes the conversion fail. Then: optional ASCII whitespace, an optional sign, decimal
  digits where single underscores may stand between two digits, optional ASCII whitespace;
  anything else raises \<^verbatim>\<open>ValueError\<close>, and so do more than 4300 digits (the default of
  \<^verbatim>\<open>sys.get_int_max_str_digits()\<close>). So the separators \<open>0x1C\<close> to \<open>0x1F\<close>, which \<^verbatim>\<open>strip()\<close>
  removes, are not skipped here.
\<close>

definition int_space :: "codepoint \<Rightarrow> bool" where
  "int_space c \<longleftrightarrow> (0x09 \<le> c \<and> c \<le> 0x0D) \<or> c = 0x20 \<or> (127 \<le> c \<and> isspace c)"

text \<open>
  The decimal digits (general category Nd) of Unicode 14.0, the character database of
  CPython 3.11: 66 runs of ten code points, each run the digits 0 to 9 in order.
  \<open>decimal_zeros\<close> holds the first code point of each run.
\<close>

definition decimal_zeros :: "codepoint list" where
  "decimal_zeros =
     [0x0030, 0x0660, 0x06F0, 0x07C0, 0x0966, 0x09E6, 0x0A66, 0x0AE6,
      0x0B66, 0x0BE6, 0x0C66, 0x0CE6, 0x0D66, 0x0DE6, 0x0E50, 0x0ED0,
      0x0F20, 0x1040, 0x1090, 0x17E0, 0x1810, 0x1946, 0x19D0, 0x1A80,
      0x1A90, 0x1B50, 0x1BB0, 0x1C40, 0x1C50, 0xA620, 0xA8D0, 0xA900,
      0xA9D0, 0xA9F0, 0xAA50, 0xABF0, 0xFF10, 0x104A0, 0x10D30, 0x11066,
      0x110F0, 0x11136, 0x111D0, 0x112F0, 0x11450, 0x114D0, 0x11650, 0x116C0,
      0x11730, 0x118E0, 0x11950, 0x11C50, 0x11D50, 0x11DA0, 0x16A60, 0x16AC0,
      0x16B50, 0x1D7CE, 0x1D7D8, 0x1D7E2, 0x1D7EC, 0x1D7F6, 0x1E140, 0x1E2F0,
      0x1E950, 0x1FBF0]"

definition digit_val :: "codepoint \<Rightarrow> nat option" where
  "digit_val c = map_option (\<lambda>z. c - z) (find (\<lambda>z. z \<le> c \<and> c < z + 10) decimal_zeros)"

text \<open>
  The digits after the first one: the value and the number of digits read so far, then the
  rest of the string. An underscore must be followed by a digit.
\<close>

fun scan_digits :: "nat \<Rightarrow> nat \<Rightarrow> pystr \<Rightarrow> (nat \<times> nat) option" where
  "scan_digits acc n [] = Some (acc, n)"
| "scan_digits acc n (c # cs) =
     (if c = 95 then
        (case cs of
           [] \<Rightarrow> None
         | d # ds \<Rightarrow>
             (case digit_val d of
                None \<Rightarrow> None
              | Some v \<Rightarrow> scan_digits (acc * 10 + v) (Suc n) ds))
      else
        (case digit_val c of
           None \<Rightarrow> None
         | Some v \<Rightarrow> scan_digits (acc * 10 + v) (Suc n) cs))"

definition int_of_digits :: "pystr \<Rightarrow> nat option" where
  "int_of_digits s =
     (case s of
        [] \<Rightarrow> None
      | c # cs \<Rightarrow>
          (case digit_val c of
             None \<Rightarrow> None
           | Some v \<Rightarrow>
               (case scan_digits v 1 cs of
                  None \<Rightarrow> None
                | Some (val, n) \<Rightarrow> if 4300 < n then None else Some val)))"

definition int_of_str :: "pystr \<Rightarrow> exn + int" where
  "int_of_str s =
     (let t = rev (dropWhile int_space (rev (dropWhile int_space s)));
          neg = (t \<noteq> [] \<and> hd t = 45);
          body = (if t \<noteq> [] \<and> (hd t = 45 \<or> hd t = 43) then tl t else t)
      in case int_of_digits body of
           None \<Rightarrow> Inl ValueError
         | Some n \<Rightarrow> Inr (if neg then - int n else int n))"

fun py_int :: "pyval \<Rightarrow> exn + int" where
  "py_int (PyInt n) = Inr n"
| "py_int (PyStr s) = int_of_str s"
| "py_int PyNone = Inl TypeError"

section \<open>The prompt builder\<close>

text \<open>
  \<^verbatim>\<open>create_processing_prompt\<close> (lines 55 to 101) appends to the list \<^verbatim>\<open>prompt_parts\<close> and
  returns \<^verbatim>\<open>"".join(prompt_parts)\<close>. \<open>prompt_parts\<close> is that list when the function returns.
\<close>

definition prompt_parts :: "pystr \<Rightarrow> int \<Rightarrow> int \<Rightarrow> int \<Rightarrow> int \<Rightarrow> pystr list" where
  "prompt_parts text faithfulness human_like ai_like formality =
     [lit ''Please process the following text according to these specific parameters:'',
      lit [CHR 0x0A] @ lit ''**Faithfulness to Original (Level '' @ str_int faithfulness @ lit ''/10):**'']
     @ [if faithfulness \<le> 2 then
          lit ''Make significant changes and improvements to the content while preserving core meaning.''
        else if faithfulness \<le> 5 then
          lit ''Make moderate changes to improve clarity and flow while keeping most original content.''
        else
          lit ''Make minimal changes, focusing only on essential corrections and improvements.'']
     @ [lit [CHR 0x0A] @ lit ''**Human-like Sound (Level '' @ str_int human_like @ lit ''/10):**'']
     @ [if human_like \<le> 2 then
          lit ''Use very natural, conversational language with contractions and casual expressions.''
        else if human_like \<le> 5 then
          lit ''Use moderately natural language that sounds human but polished.''
        else
          lit ''Use highly natural, warm, and engaging human language with personality.'']
     @ [lit [CHR 0x0A] @ lit ''**AI-like Sound (Level '' @ str_int ai_like @ lit ''/10):**'']
     @ [if ai_like \<le> 2 then
          lit ''Avoid any mechanical or robotic phrasing; sound completely human.''
        else if ai_like \<le> 5 then
          lit ''Use some structured phrasing but maintain natural flow.''
        else
          lit ''Use precise, structured language that sounds more systematic and analytical.'']
     @ [lit [CHR 0x0A] @ lit ''**Formality Level (Level '' @ str_int formality @ lit ''/10):**'']
     @ [if formality \<le> 2 then
          lit ''Use very casual, informal language appropriate for friends or social media.''
        else if formality \<le> 5 then
          lit ''Use moderately formal language suitable for business communication.''
        else
          lit ''Use highly formal, academic or professional language.'']
     @ [lit [CHR 0x0A] @ lit ''**Text to process:**'',
        lit [CHR 0x0A] @ text,
        lit [CHR 0x0A] @ lit ''**Instructions:** Apply the above parameters to rewrite this text. Return only the processed text without explanations.'']"

definition create_processing_prompt :: "pystr \<Rightarrow> int \<Rightarrow> int \<Rightarrow> int \<Rightarrow> int \<Rightarrow> pystr" where
  "create_processing_prompt text faithfulness human_like ai_like formality =
     concat (prompt_parts text faithfulness human_like ai_like formality)"

section \<open>The parameter validator\<close>

text \<open>
  \<^verbatim>\<open>request.form\<close> is a multi-dict of strings; \<^verbatim>\<open>get\<close> returns the first value stored under
  a key, or the default. It is an association list, of which \<open>map_of\<close> reads the first entry.
\<close>

type_synonym form = "(pystr \<times> pystr) list"

definition form_get :: "form \<Rightarrow> pystr \<Rightarrow> pyval \<Rightarrow> pyval" where
  "form_get data key dflt = (case map_of data key of None \<Rightarrow> dflt | Some s \<Rightarrow> PyStr s)"

definition required_params :: "pystr list" where
  "required_params = [lit ''faithfulness'', lit ''human_like'', lit ''ai_like'', lit ''formality'']"

text \<open>
  The \<^verbatim>\<open>for param in required_params\<close> loop of \<^verbatim>\<open>validate_slider_values\<close> (lines 45 to 53),
  on the parameters still to be examined. Both exceptions of \<^verbatim>\<open>int\<close> are caught by the
  \<^verbatim>\<open>except (ValueError, TypeError)\<close> clause.
\<close>

fun validate_loop :: "form \<Rightarrow> pystr list \<Rightarrow> bool \<times> pystr option" where
  "validate_loop data [] = (True, None)"
| "validate_loop data (param # rest) =
     (case py_int (form_get data param (PyInt 0)) of
        Inl e \<Rightarrow> (False, Some (param @ lit '' must be a valid number''))
      | Inr v \<Rightarrow>
          if \<not> (0 \<le> v \<and> v \<le> 10) then (False, Some (param @ lit '' must be between 0 and 10''))
          else validate_loop data rest)"

definition validate_slider_values :: "form \<Rightarrow> bool \<times> pystr option" where
  "validate_slider_values data = validate_loop data required_params"

section \<open>Uploaded files\<close>








record upload =
  filename :: pystr
  content :: "byte list"

section \<open>Requests, responses, the completion service\<close>

text \<open>
  Of a request the handler reads \<^verbatim>\<open>request.form\<close> and the entry \<^verbatim>\<open>'file'\<close> of
  \<^verbatim>\<open>request.files\<close>, which is \<open>None\<close> when \<^verbatim>\<open>'file' in request.files\<close> is false. Both are
  parsed from the body when \<^verbatim>\<open>request.form\<close> is first read (line 119); \<open>content_length\<close> is
  the length of the body in bytes. With \<^verbatim>\<open>app.config['MAX_CONTENT_LENGTH'] = MAX_FILE_SIZE\<close>
  (lines 30 and 33) that first read raises \<^verbatim>\<open>RequestEntityTooLarge\<close> for a longer body.
\<close>

record request =
  content_length :: nat
  form :: form
  files_file :: "upload option"


datatype json = JNull | JBool bool | JInt int | JStr pystr | JObj "(string \<times> json) list"

record response =
  status :: nat
  body :: json

text \<open>\<^verbatim>\<open>jsonify({'success': False, 'error': msg}), code\<close>\<close>

definition error_response :: "nat \<Rightarrow> pystr \<Rightarrow> response" where
  "error_response code msg =
     \<lparr>status = code, body = JObj [(''success'', JBool False), (''error'', JStr msg)]\<rparr>"



section \<open>The request handler\<close>







section \<open>Reading a response envelope\<close>






section \<open>Literals\<close>

lemma lit_eq_iff [simp]: "lit a = lit b \<longleftrightarrow> a = b"
  by (simp add: lit_def inj_of_char)

lemma lit_eq_Nil [simp]: "lit a = [] \<longleftrightarrow> a = []"
  by (simp add: lit_def)

section \<open>The prompt builder: bands and layout\<close>

lemma faithfulness_band:
  "(lit ''Make significant changes and improvements to the content while preserving core meaning.''
      \<in> set (prompt_parts text faithfulness human_like ai_like formality)
        \<longleftrightarrow> faithfulness \<le> 2) \<and>
   (lit ''Make moderate changes to improve clarity and flow while keeping most original content.''
      \<in> set (prompt_parts text faithfulness human_like ai_like formality)
        \<longleftrightarrow> 3 \<le> faithfulness \<and> faithfulness \<le> 5) \<and>
   (lit ''Make minimal changes, focusing only on essential corrections and improvements.''
      \<in> set (prompt_parts text faithfulness human_like ai_like formality)
        \<longleftrightarrow> 6 \<le> faithfulness)"
  by (auto simp add: prompt_parts_def lit_def)

lemma human_like_band:
  "(lit ''Use very natural, conversational language with contractions and casual expressions.''
      \<in> set (prompt_parts text faithfulness human_like ai_like formality)
        \<longleftrightarrow> human_like \<le> 2) \<and>
   (lit ''Use moderately natural language that sounds human but polished.''
      \<in> set (prompt_parts text faithfulness human_like ai_like formality)
        \<longleftrightarrow> 3 \<le> human_like \<and> human_like \<le> 5) \<and>
   (lit ''Use highly natural, warm, and engaging human language with personality.''
      \<in> set (prompt_parts text faithfulness human_like ai_like formality)
        \<longleftrightarrow> 6 \<le> human_like)"
  by (auto simp add: prompt_parts_def lit_def)

lemma ai_like_band:
  "(lit ''Avoid any mechanical or robotic phrasing; sound completely human.''
      \<in> set (prompt_parts text faithfulness human_like ai_like formality)
        \<longleftrightarrow> ai_like \<le> 2) \<and>
   (lit ''Use some structured phrasing but maintain natural flow.''
      \<in> set (prompt_parts text faithfulness human_like ai_like formality)
        \<longleftrightarrow> 3 \<le> ai_like \<and> ai_like \<le> 5) \<and>
   (lit ''Use precise, structured language that sounds more systematic and analytical.''
      \<in> set (prompt_parts text faithfulness human_like ai_like formality)
        \<longleftrightarrow> 6 \<le> ai_like)"
  by (auto simp add: prompt_parts_def lit_def)

lemma formality_band:
  "(lit ''Use very casual, informal language appropriate for friends or social media.''
      \<in> set (prompt_parts text faithfulness human_like ai_like formality)
        \<longleftrightarrow> formality \<le> 2) \<and>
   (lit ''Use moderately formal language suitable for business communication.''
      \<in> set (prompt_parts text faithfulness human_like ai_like formality)
        \<longleftrightarrow> 3 \<le> formality \<and> formality \<le> 5) \<and>
   (lit ''Use highly formal, academic or professional language.''
      \<in> set (prompt_parts text faithfulness human_like ai_like formality)
        \<longleftrightarrow> 6 \<le> formality)"
  by (auto simp add: prompt_parts_def lit_def)

text \<open>
  C1. The prompt is the concatenation of \<open>prompt_parts\<close>. For every text and all integer
  values of the four parameters (so for every value from 0 to 10), the low-band directive
  of a parameter is one of the parts exactly when its value is at most 2, the mid-band
  directive exactly when the value is from 3 to 5, and the high-band directive exactly when
  the value is at least 6.
\<close>

theorem band_directive_selected:
  "create_processing_prompt text faithfulness human_like ai_like formality =
     concat (prompt_parts text faithfulness human_like ai_like formality) \<and>
   ((lit ''Make significant changes and improvements to the content while preserving core meaning.''
      \<in> set (prompt_parts text faithfulness human_like ai_like formality)
        \<longleftrightarrow> faithfulness \<le> 2) \<and>
    (lit ''Make moderate changes to improve clarity and flow while keeping most original content.''
      \<in> set (prompt_parts text faithfulness human_like ai_like formality)
        \<longleftrightarrow> 3 \<le> faithfulness \<and> faithfulness \<le> 5) \<and>
    (lit ''Make minimal changes, focusing only on essential corrections and improvements.''
      \<in> set (prompt_parts text faithfulness human_like ai_like formality)
        \<longleftrightarrow> 6 \<le> faithfulness)) \<and>
   ((lit ''Use very natural, conversational language with contractions and casual expressions.''
      \<in> set (prompt_parts text faithfulness human_like ai_like formality)
        \<longleftrightarrow> human_like \<le> 2) \<and>
    (lit ''Use moderately natural language that sounds human but polished.''
      \<in> set (prompt_parts text faithfulness human_like ai_like formality)
        \<longleftrightarrow> 3 \<le> human_like \<and> human_like \<le> 5) \<and>
    (lit ''Use highly natural, warm, and engaging human language with personality.''
      \<in> set (prompt_parts text faithfulness human_like ai_like formality)
        \<longleftrightarrow> 6 \<le> human_like)) \<and>
   ((lit ''Avoid any mechanical or robotic phrasing; sound completely human.''
      \<in> set (prompt_parts text faithfulness human_like ai_like formality)
        \<longleftrightarrow> ai_like \<le> 2) \<and>
    (lit ''Use some structured phrasing but maintain natural flow.''
      \<in> set (prompt_parts text faithfulness human_like ai_like formality)
        \<longleftrightarrow> 3 \<le> ai_like \<and> ai_like \<le> 5) \<and>
    (lit ''Use precise, structured language that sounds more systematic and analytical.''
      \<in> set (prompt_parts text faithfulness human_like ai_like formality)
        \<longleftrightarrow> 6 \<le> ai_like)) \<and>
   ((lit ''Use very casual, informal language appropriate for friends or social media.''
      \<in> set (prompt_parts text faithfulness human_like ai_like formality)
        \<longleftrightarrow> formality \<le> 2) \<and>
    (lit ''Use moderately formal language suitable for business communication.''
      \<in> set (prompt_parts text faithfulness human_like ai_like formality)
        \<longleftrightarrow> 3 \<le> formality \<and> formality \<le> 5) \<and>
    (lit ''Use highly formal, academic or professional language.''
      \<in> set (prompt_parts text faithfulness human_like ai_like formality)
        \<longleftrightarrow> 6 \<le> formality))"
  using faithfulness_band [of "text" faithfulness human_like ai_like formality]
    human_like_band [of "text" faithfulness human_like ai_like formality]
    ai_like_band [of "text" faithfulness human_like ai_like formality]
    formality_band [of "text" faithfulness human_like ai_like formality]
  unfolding create_processing_prompt_def by blast

lemma str_nat_digits: "set (str_nat n) \<subseteq> {48..57}"
proof (induction n rule: str_nat.induct)
  case (1 n)
  show ?case
  proof (cases "n < 10")
    case True
    then show ?thesis by (simp add: str_nat.simps [of n])
  next
    case False
    then have "n mod 10 < 10" by simp
    with False 1 show ?thesis by (simp add: str_nat.simps [of n])
  qed
qed

lemma str_nat_value: "foldl (\<lambda>acc c. acc * 10 + (c - 48)) 0 (str_nat n) = n"
proof (induction n rule: str_nat.induct)
  case (1 n)
  show ?case
  proof (cases "n < 10")
    case True
    then show ?thesis by (simp add: str_nat.simps [of n])
  next
    case False
    with 1 show ?thesis by (simp add: str_nat.simps [of n])
  qed
qed

lemma str_nat_nonempty: "str_nat n \<noteq> []"
  by (simp add: str_nat.simps [of n])

lemma str_nat_no_leading_zero: "n \<noteq> 0 \<Longrightarrow> hd (str_nat n) \<noteq> 48"
proof (induction n rule: str_nat.induct)
  case (1 n)
  show ?case
  proof (cases "n < 10")
    case True
    with 1(2) show ?thesis by (simp add: str_nat.simps [of n])
  next
    case False
    then have "n div 10 \<noteq> 0" by simp
    with False 1(1) show ?thesis
      by (simp add: str_nat.simps [of n] str_nat_nonempty)
  qed
qed

lemma str_int_upto_10:
  "map str_int [0, 1, 2, 3, 4, 5, 6, 7, 8, 9, 10] =
     [lit ''0'', lit ''1'', lit ''2'', lit ''3'', lit ''4'', lit ''5'', lit ''6'', lit ''7'',
      lit ''8'', lit ''9'', lit ''10'']"
  by (simp add: str_int_def str_nat.simps lit_def)

text \<open>
  C6. For all parameter values and every text the prompt is, in this order: the preamble;
  for faithfulness, human_like, ai_like and formality a heading with the value as
  \<^verbatim>\<open>Level n/10\<close> followed by one of the three directives of that parameter; the heading
  \<^verbatim>\<open>Text to process\<close> and, on the next line, the text itself, unchanged and in one piece;
  the closing instruction. The value in a heading is \<open>str_int n\<close>, the decimal numeral of
  \<open>n\<close>: for 0 to 10 the strings \<^verbatim>\<open>0\<close> to \<^verbatim>\<open>10\<close>; for every \<open>n\<close> from 0 on a non-empty string
  of ASCII digits with the value \<open>n\<close> and no leading zero; for a negative \<open>n\<close> a minus sign
  before the numeral of \<open>- n\<close>.
\<close>

theorem prompt_layout:
  "(\<exists>d1 d2 d3 d4.
     d1 \<in> {lit ''Make significant changes and improvements to the content while preserving core meaning.'',
           lit ''Make moderate changes to improve clarity and flow while keeping most original content.'',
           lit ''Make minimal changes, focusing only on essential corrections and improvements.''} \<and>
     d2 \<in> {lit ''Use very natural, conversational language with contractions and casual expressions.'',
           lit ''Use moderately natural language that sounds human but polished.'',
           lit ''Use highly natural, warm, and engaging human language with personality.''} \<and>
     d3 \<in> {lit ''Avoid any mechanical or robotic phrasing; sound completely human.'',
           lit ''Use some structured phrasing but maintain natural flow.'',
           lit ''Use precise, structured language that sounds more systematic and analytical.''} \<and>
     d4 \<in> {lit ''Use very casual, informal language appropriate for friends or social media.'',
           lit ''Use moderately formal language suitable for business communication.'',
           lit ''Use highly formal, academic or professional language.''} \<and>
     create_processing_prompt text faithfulness human_like ai_like formality =
       lit ''Please process the following text according to these specific parameters:''
       @ lit [CHR 0x0A] @ lit ''**Faithfulness to Original (Level '' @ str_int faithfulness
       @ lit ''/10):**'' @ d1
       @ lit [CHR 0x0A] @ lit ''**Human-like Sound (Level '' @ str_int human_like
       @ lit ''/10):**'' @ d2
       @ lit [CHR 0x0A] @ lit ''**AI-like Sound (Level '' @ str_int ai_like
       @ lit ''/10):**'' @ d3
       @ lit [CHR 0x0A] @ lit ''**Formality Level (Level '' @ str_int formality
       @ lit ''/10):**'' @ d4
       @ lit [CHR 0x0A] @ lit ''**Text to process:**''
       @ lit [CHR 0x0A] @ text
       @ lit [CHR 0x0A] @ lit ''**Instructions:** Apply the above parameters to rewrite this text. Return only the processed text without explanations.'') \<and>
   map str_int [0, 1, 2, 3, 4, 5, 6, 7, 8, 9, 10] =
     [lit ''0'', lit ''1'', lit ''2'', lit ''3'', lit ''4'', lit ''5'', lit ''6'', lit ''7'',
      lit ''8'', lit ''9'', lit ''10''] \<and>
   (\<forall>n. 0 \<le> n \<longrightarrow>
      str_int n \<noteq> [] \<and> set (str_int n) \<subseteq> {48..57} \<and>
      foldl (\<lambda>acc c. acc * 10 + (c - 48)) 0 (str_int n) = nat n \<and>
      (n = 0 \<or> hd (str_int n) \<noteq> 48)) \<and>
   (\<forall>n. n < 0 \<longrightarrow> str_int n = 45 # str_int (- n))"
proof -
  let ?ps = "prompt_parts text faithfulness human_like ai_like formality"
  have layout: "\<exists>d1 d2 d3 d4.
     d1 \<in> {lit ''Make significant changes and improvements to the content while preserving core meaning.'',
           lit ''Make moderate changes to improve clarity and flow while keeping most original content.'',
           lit ''Make minimal changes, focusing only on essential corrections and improvements.''} \<and>
     d2 \<in> {lit ''Use very natural, conversational language with contractions and casual expressions.'',
           lit ''Use moderately natural language that sounds human but polished.'',
           lit ''Use highly natural, warm, and engaging human language with personality.''} \<and>
     d3 \<in> {lit ''Avoid any mechanical or robotic phrasing; sound completely human.'',
           lit ''Use some structured phrasing but maintain natural flow.'',
           lit ''Use precise, structured language that sounds more systematic and analytical.''} \<and>
     d4 \<in> {lit ''Use very casual, informal language appropriate for friends or social media.'',
           lit ''Use moderately formal language suitable for business communication.'',
           lit ''Use highly formal, academic or professional language.''} \<and>
     create_processing_prompt text faithfulness human_like ai_like formality =
       lit ''Please process the following text according to these specific parameters:''
       @ lit [CHR 0x0A] @ lit ''**Faithfulness to Original (Level '' @ str_int faithfulness
       @ lit ''/10):**'' @ d1
       @ lit [CHR 0x0A] @ lit ''**Human-like Sound (Level '' @ str_int human_like
       @ lit ''/10):**'' @ d2
       @ lit [CHR 0x0A] @ lit ''**AI-like Sound (Level '' @ str_int ai_like
       @ lit ''/10):**'' @ d3
       @ lit [CHR 0x0A] @ lit ''**Formality Level (Level '' @ str_int formality
       @ lit ''/10):**'' @ d4
       @ lit [CHR 0x0A] @ lit ''**Text to process:**''
       @ lit [CHR 0x0A] @ text
       @ lit [CHR 0x0A] @ lit ''**Instructions:** Apply the above parameters to rewrite this text. Return only the processed text without explanations.''"
    apply (rule exI [of _ "?ps ! 2"])
    apply (rule exI [of _ "?ps ! 4"])
    apply (rule exI [of _ "?ps ! 6"])
    apply (rule exI [of _ "?ps ! 8"])
    apply (simp add: create_processing_prompt_def prompt_parts_def)
    done
  have nonneg: "str_int n \<noteq> [] \<and> set (str_int n) \<subseteq> {48..57} \<and>
      foldl (\<lambda>acc c. acc * 10 + (c - 48)) 0 (str_int n) = nat n \<and>
      (n = 0 \<or> hd (str_int n) \<noteq> 48)" if "0 \<le> n" for n
    using that str_nat_digits [of "nat n"] str_nat_value [of "nat n"]
      str_nat_nonempty [of "nat n"] str_nat_no_leading_zero [of "nat n"]
    by (auto simp add: str_int_def)
  have neg: "str_int n = 45 # str_int (- n)" if "n < 0" for n
    using that by (simp add: str_int_def)
  from layout str_int_upto_10 nonneg neg show ?thesis by blast
qed

theorem prompt_layout_witness:
  "foldl (\<lambda>acc c. acc * 10 + (c - 48)) 0 (str_int 120) = 120 \<and>
   set (str_int 120) \<subseteq> {48..57} \<and>
   str_int (- 3) = 45 # str_int 3 \<and>
   str_int 7 = lit ''7'' \<and>
   create_processing_prompt (lit ''Hello world'') 0 0 0 0 =
     lit ''Please process the following text according to these specific parameters:''
     @ lit [CHR 0x0A] @ lit ''**Faithfulness to Original (Level 0/10):**Make significant changes and improvements to the content while preserving core meaning.''
     @ lit [CHR 0x0A] @ lit ''**Human-like Sound (Level 0/10):**Use very natural, conversational language with contractions and casual expressions.''
     @ lit [CHR 0x0A] @ lit ''**AI-like Sound (Level 0/10):**Avoid any mechanical or robotic phrasing; sound completely human.''
     @ lit [CHR 0x0A] @ lit ''**Formality Level (Level 0/10):**Use very casual, informal language appropriate for friends or social media.''
     @ lit [CHR 0x0A] @ lit ''**Text to process:**''
     @ lit [CHR 0x0A] @ lit ''Hello world''
     @ lit [CHR 0x0A] @ lit ''**Instructions:** Apply the above parameters to rewrite this text. Return only the processed text without explanations.''"
proof -
  have a: "(0::int) \<le> 120" and b: "(- 3::int) < 0"
    by simp_all
  have c: "str_int 7 = lit ''7''"
    using prompt_layout [of "lit ''Hello world''" 0 0 0 0] by simp
  have d: "create_processing_prompt (lit ''Hello world'') 0 0 0 0 =
     lit ''Please process the following text according to these specific parameters:''
     @ lit [CHR 0x0A] @ lit ''**Faithfulness to Original (Level 0/10):**Make significant changes and improvements to the content while preserving core meaning.''
     @ lit [CHR 0x0A] @ lit ''**Human-like Sound (Level 0/10):**Use very natural, conversational language with contractions and casual expressions.''
     @ lit [CHR 0x0A] @ lit ''**AI-like Sound (Level 0/10):**Avoid any mechanical or robotic phrasing; sound completely human.''
     @ lit [CHR 0x0A] @ lit ''**Formality Level (Level 0/10):**Use very casual, informal language appropriate for friends or social media.''
     @ lit [CHR 0x0A] @ lit ''**Text to process:**''
     @ lit [CHR 0x0A] @ lit ''Hello world''
     @ lit [CHR 0x0A] @ lit ''**Instructions:** Apply the above parameters to rewrite this text. Return only the processed text without explanations.''"
    by (simp add: create_processing_prompt_def prompt_parts_def str_int_def str_nat.simps lit_def)
  show ?thesis
    using prompt_layout [of "lit ''Hello world''" 0 0 0 0] a b c d by simp
qed

section \<open>The validator: the first failure decides\<close>

lemma validate_loop_skip:
  assumes "\<forall>q\<in>set earlier. \<exists>v. py_int (form_get data q (PyInt 0)) = Inr v \<and> 0 \<le> v \<and> v \<le> 10"
  shows "validate_loop data (earlier @ rest) = validate_loop data rest"
  using assms by (induction earlier) auto

lemma validate_slider_values_decides:
  "(\<forall>earlier name later.
      [lit ''faithfulness'', lit ''human_like'', lit ''ai_like'', lit ''formality'']
        = earlier @ name # later \<and>
      (\<forall>q\<in>set earlier. \<exists>v. py_int (form_get data q (PyInt 0)) = Inr v \<and> 0 \<le> v \<and> v \<le> 10) \<longrightarrow>
        ((\<exists>e. py_int (form_get data name (PyInt 0)) = Inl e) \<longrightarrow>
           validate_slider_values data = (False, Some (name @ lit '' must be a valid number''))) \<and>
        ((\<exists>v. py_int (form_get data name (PyInt 0)) = Inr v \<and> (v < 0 \<or> 10 < v)) \<longrightarrow>
           validate_slider_values data = (False, Some (name @ lit '' must be between 0 and 10'')))) \<and>
   ((\<forall>q\<in>set [lit ''faithfulness'', lit ''human_like'', lit ''ai_like'', lit ''formality''].
       \<exists>v. py_int (form_get data q (PyInt 0)) = Inr v \<and> 0 \<le> v \<and> v \<le> 10) \<longrightarrow>
      validate_slider_values data = (True, None)) \<and>
   (\<forall>name. map_of data name = None \<longrightarrow> py_int (form_get data name (PyInt 0)) = Inr 0) \<and>
   (\<forall>name s. map_of data name = Some s \<longrightarrow>
      py_int (form_get data name (PyInt 0)) = int_of_str s)"
proof (intro conjI allI impI)
  fix earlier name later
  assume h: "[lit ''faithfulness'', lit ''human_like'', lit ''ai_like'', lit ''formality'']
        = earlier @ name # later \<and>
      (\<forall>q\<in>set earlier. \<exists>v. py_int (form_get data q (PyInt 0)) = Inr v \<and> 0 \<le> v \<and> v \<le> 10)"
  then have eq: "validate_slider_values data = validate_loop data (name # later)"
    unfolding validate_slider_values_def required_params_def
    using validate_loop_skip [of earlier data "name # later"] by simp
  {
    assume "\<exists>e. py_int (form_get data name (PyInt 0)) = Inl e"
    then show "validate_slider_values data = (False, Some (name @ lit '' must be a valid number''))"
      using eq by auto
  }
  {
    assume "\<exists>v. py_int (form_get data name (PyInt 0)) = Inr v \<and> (v < 0 \<or> 10 < v)"
    then show "validate_slider_values data = (False, Some (name @ lit '' must be between 0 and 10''))"
      using eq by auto
  }
next
  assume "\<forall>q\<in>set [lit ''faithfulness'', lit ''human_like'', lit ''ai_like'', lit ''formality''].
       \<exists>v. py_int (form_get data q (PyInt 0)) = Inr v \<and> 0 \<le> v \<and> v \<le> 10"
  then show "validate_slider_values data = (True, None)"
    unfolding validate_slider_values_def required_params_def
    using validate_loop_skip [of "[lit ''faithfulness'', lit ''human_like'', lit ''ai_like'', lit ''formality'']" data "[]"]
    by simp
next
  fix name assume "map_of data name = None"
  then show "py_int (form_get data name (PyInt 0)) = Inr 0" by (simp add: form_get_def)
next
  fix name s assume "map_of data name = Some s"
  then show "py_int (form_get data name (PyInt 0)) = int_of_str s" by (simp add: form_get_def)
qed

lemmas int_eval = form_get_def int_of_str_def int_space_def isspace_def int_of_digits_def
  digit_val_def decimal_zeros_def lit_def

text \<open>
  C2. For every form: split the fixed order faithfulness, human_like, ai_like, formality at
  any name such that every earlier name converts to a value from 0 to 10. If the conversion
  of that name fails, the result is invalid with the reason
  \<^verbatim>\<open><name> must be a valid number\<close>; if it converts to a value outside 0 to 10, the result
  is invalid with the reason \<^verbatim>\<open><name> must be between 0 and 10\<close>; in both cases whatever the
  later names hold. If all four convert to values from 0 to 10 the result is valid with no
  reason. An absent name converts to 0, and a present one is converted from its string by
  \<open>int_of_str\<close>: the numerals \<^verbatim>\<open>0\<close> to \<^verbatim>\<open>10\<close> convert to 0 to 10, \<^verbatim>\<open>-1\<close> and \<^verbatim>\<open>11\<close> convert to
  values out of range, blanks around the digits are skipped, and \<^verbatim>\<open>abc\<close>, \<^verbatim>\<open>5.0\<close> and the
  empty string fail to convert; the separator \<open>0x1C\<close> before a digit makes the conversion
  fail, the Arabic-Indic digit three converts to 3, and a fullwidth five followed by a
  no-break space converts to 5.
\<close>

theorem validate_slider_values_first_failure:
  "((\<forall>earlier name later.
      [lit ''faithfulness'', lit ''human_like'', lit ''ai_like'', lit ''formality'']
        = earlier @ name # later \<and>
      (\<forall>q\<in>set earlier. \<exists>v. py_int (form_get data q (PyInt 0)) = Inr v \<and> 0 \<le> v \<and> v \<le> 10) \<longrightarrow>
        ((\<exists>e. py_int (form_get data name (PyInt 0)) = Inl e) \<longrightarrow>
           validate_slider_values data = (False, Some (name @ lit '' must be a valid number''))) \<and>
        ((\<exists>v. py_int (form_get data name (PyInt 0)) = Inr v \<and> (v < 0 \<or> 10 < v)) \<longrightarrow>
           validate_slider_values data = (False, Some (name @ lit '' must be between 0 and 10'')))) \<and>
   ((\<forall>q\<in>set [lit ''faithfulness'', lit ''human_like'', lit ''ai_like'', lit ''formality''].
       \<exists>v. py_int (form_get data q (PyInt 0)) = Inr v \<and> 0 \<le> v \<and> v \<le> 10) \<longrightarrow>
      validate_slider_values data = (True, None)) \<and>
   (\<forall>name. map_of data name = None \<longrightarrow> py_int (form_get data name (PyInt 0)) = Inr 0) \<and>
   (\<forall>name s. map_of data name = Some s \<longrightarrow>
      py_int (form_get data name (PyInt 0)) = int_of_str s)) \<and>
   (map int_of_str
      [lit ''0'', lit ''1'', lit ''2'', lit ''3'', lit ''4'', lit ''5'', lit ''6'', lit ''7'',
       lit ''8'', lit ''9'', lit ''10'']
      = [Inr 0, Inr 1, Inr 2, Inr 3, Inr 4, Inr 5, Inr 6, Inr 7, Inr 8, Inr 9, Inr 10] \<and>
    int_of_str (lit ''-1'') = Inr (- 1) \<and> int_of_str (lit ''11'') = Inr 11 \<and>
    int_of_str (lit '' 7 '') = Inr 7 \<and> int_of_str (lit ''abc'') = Inl ValueError \<and>
    int_of_str (lit ''5.0'') = Inl ValueError \<and> int_of_str [] = Inl ValueError \<and>
    int_of_str [0x1C, 55] = Inl ValueError \<and> int_of_str [0x0663] = Inr 3 \<and>
    int_of_str [0xFF15, 0xA0] = Inr 5)"
proof (rule conjI)
  show "(\<forall>earlier name later.
      [lit ''faithfulness'', lit ''human_like'', lit ''ai_like'', lit ''formality'']
        = earlier @ name # later \<and>
      (\<forall>q\<in>set earlier. \<exists>v. py_int (form_get data q (PyInt 0)) = Inr v \<and> 0 \<le> v \<and> v \<le> 10) \<longrightarrow>
        ((\<exists>e. py_int (form_get data name (PyInt 0)) = Inl e) \<longrightarrow>
           validate_slider_values data = (False, Some (name @ lit '' must be a valid number''))) \<and>
        ((\<exists>v. py_int (form_get data name (PyInt 0)) = Inr v \<and> (v < 0 \<or> 10 < v)) \<longrightarrow>
           validate_slider_values data = (False, Some (name @ lit '' must be between 0 and 10'')))) \<and>
   ((\<forall>q\<in>set [lit ''faithfulness'', lit ''human_like'', lit ''ai_like'', lit ''formality''].
       \<exists>v. py_int (form_get data q (PyInt 0)) = Inr v \<and> 0 \<le> v \<and> v \<le> 10) \<longrightarrow>
      validate_slider_values data = (True, None)) \<and>
   (\<forall>name. map_of data name = None \<longrightarrow> py_int (form_get data name (PyInt 0)) = Inr 0) \<and>
   (\<forall>name s. map_of data name = Some s \<longrightarrow>
      py_int (form_get data name (PyInt 0)) = int_of_str s)"
    by (rule validate_slider_values_decides)
  show "map int_of_str
      [lit ''0'', lit ''1'', lit ''2'', lit ''3'', lit ''4'', lit ''5'', lit ''6'', lit ''7'',
       lit ''8'', lit ''9'', lit ''10'']
      = [Inr 0, Inr 1, Inr 2, Inr 3, Inr 4, Inr 5, Inr 6, Inr 7, Inr 8, Inr 9, Inr 10] \<and>
    int_of_str (lit ''-1'') = Inr (- 1) \<and> int_of_str (lit ''11'') = Inr 11 \<and>
    int_of_str (lit '' 7 '') = Inr 7 \<and> int_of_str (lit ''abc'') = Inl ValueError \<and>
    int_of_str (lit ''5.0'') = Inl ValueError \<and> int_of_str [] = Inl ValueError \<and>
    int_of_str [0x1C, 55] = Inl ValueError \<and> int_of_str [0x0663] = Inr 3 \<and>
    int_of_str [0xFF15, 0xA0] = Inr 5"
    by (simp add: int_eval)
qed

theorem validate_slider_values_first_failure_witness:
  "validate_slider_values
     [(lit ''formality'', lit ''abc''), (lit ''ai_like'', lit ''15''),
      (lit ''faithfulness'', lit '' 7 '')]
     = (False, Some (lit ''ai_like must be between 0 and 10'')) \<and>
   validate_slider_values
     [(lit ''human_like'', lit ''11''), (lit ''faithfulness'', [0x1C, 55])]
     = (False, Some (lit ''faithfulness must be a valid number'')) \<and>
   validate_slider_values
     [(lit ''faithfulness'', [0x0663]), (lit ''human_like'', lit ''1_0''),
      (lit ''ai_like'', lit ''-0''), (lit ''formality'', [0xFF15, 0xA0])]
     = (True, None) \<and>
   validate_slider_values [] = (True, None)"
proof -
  let ?names = "[lit ''faithfulness'', lit ''human_like'', lit ''ai_like'', lit ''formality'']"
  let ?d1 = "[(lit ''formality'', lit ''abc''), (lit ''ai_like'', lit ''15''),
      (lit ''faithfulness'', lit '' 7 '')]"
  let ?d2 = "[(lit ''human_like'', lit ''11''), (lit ''faithfulness'', [0x1C, 55])]"
  let ?d3 = "[(lit ''faithfulness'', [0x0663]), (lit ''human_like'', lit ''1_0''),
      (lit ''ai_like'', lit ''-0''), (lit ''formality'', [0xFF15, 0xA0])]"
  have split1: "?names = [lit ''faithfulness'', lit ''human_like''] @ lit ''ai_like'' # [lit ''formality'']"
    and split2: "?names = [] @ lit ''faithfulness'' # [lit ''human_like'', lit ''ai_like'', lit ''formality'']"
    by simp_all
  have f1: "py_int (form_get ?d1 (lit ''faithfulness'') (PyInt 0)) = Inr 7"
    and h1: "py_int (form_get ?d1 (lit ''human_like'') (PyInt 0)) = Inr 0"
    and a1: "py_int (form_get ?d1 (lit ''ai_like'') (PyInt 0)) = Inr 15"
    by (simp_all add: int_eval)
  have earlier1: "\<forall>q\<in>set [lit ''faithfulness'', lit ''human_like''].
      \<exists>v. py_int (form_get ?d1 q (PyInt 0)) = Inr v \<and> 0 \<le> v \<and> v \<le> 10"
    using f1 h1 by simp
  have bad1: "\<exists>v. py_int (form_get ?d1 (lit ''ai_like'') (PyInt 0)) = Inr v \<and> (v < 0 \<or> 10 < v)"
    using a1 by simp
  have r1: "validate_slider_values ?d1 =
      (False, Some (lit ''ai_like'' @ lit '' must be between 0 and 10''))"
    using validate_slider_values_first_failure [of ?d1, THEN conjunct1] split1 earlier1 bad1 by blast
  have f2: "py_int (form_get ?d2 (lit ''faithfulness'') (PyInt 0)) = Inl ValueError"
    by (simp add: int_eval)
  have earlier2: "\<forall>q\<in>set [].
      \<exists>v. py_int (form_get ?d2 q (PyInt 0)) = Inr v \<and> 0 \<le> v \<and> v \<le> 10"
    by simp
  have bad2: "\<exists>e. py_int (form_get ?d2 (lit ''faithfulness'') (PyInt 0)) = Inl e"
    using f2 by simp
  have r2: "validate_slider_values ?d2 =
      (False, Some (lit ''faithfulness'' @ lit '' must be a valid number''))"
    using validate_slider_values_first_failure [of ?d2, THEN conjunct1] split2 earlier2 bad2 by blast
  have f3: "py_int (form_get ?d3 (lit ''faithfulness'') (PyInt 0)) = Inr 3"
    and h3: "py_int (form_get ?d3 (lit ''human_like'') (PyInt 0)) = Inr 10"
    and a3: "py_int (form_get ?d3 (lit ''ai_like'') (PyInt 0)) = Inr 0"
    and fo3: "py_int (form_get ?d3 (lit ''formality'') (PyInt 0)) = Inr 5"
    by (simp_all add: int_eval)
  have all3: "\<forall>q\<in>set ?names.
      \<exists>v. py_int (form_get ?d3 q (PyInt 0)) = Inr v \<and> 0 \<le> v \<and> v \<le> 10"
    using f3 h3 a3 fo3 by simp
  have r3: "validate_slider_values ?d3 = (True, None)"
    using validate_slider_values_first_failure [of ?d3, THEN conjunct1] all3 by blast
  have all4: "\<forall>q\<in>set ?names.
      \<exists>v. py_int (form_get [] q (PyInt 0)) = Inr v \<and> 0 \<le> v \<and> v \<le> 10"
    using validate_slider_values_first_failure [of "[]", THEN conjunct1] by simp
  have r4: "validate_slider_values [] = (True, None)"
    using validate_slider_values_first_failure [of "[]", THEN conjunct1] all4 by blast
  from r1 r2 r3 r4 show ?thesis by (simp add: lit_def)
qed

section \<open>The handler, stage by stage\<close>





lemma form_get_absent:
  "map_of data name = None \<Longrightarrow> form_get data name d = d"
  by (simp add: form_get_def)

lemma form_get_present:
  "map_of data name = Some s \<Longrightarrow> form_get data name d = PyStr s"
  by (simp add: form_get_def)











section \<open>Text resolution and uploads\<close>



lemma error_response_eq_iff [simp]:
  "error_response c m = error_response c' m' \<longleftrightarrow> c = c' \<and> m = m'"
  by (auto simp add: error_response_def)


















section \<open>Requests without sliders\<close>





section \<open>The order of the stages\<close>








section \<open>Outcomes of the completion call\<close>






section \<open>The response envelope\<close>








end
